theory Spec2Isabelle
  imports Complex_Main "HOL-Library.AList"
begin

section \<open>Test fixtures of the grid-integration toolkit\<close>

text \<open>
  A shallow embedding of \<^verbatim>\<open>idaes/apps/grid_integration/tests/util.py\<close>: the mock
  generator model \<^verbatim>\<open>TestingModel\<close> and the mock price forecaster
  \<^verbatim>\<open>TestingForecaster\<close>.

  Numbers (powers, costs, prices) are exact rationals; the rounding error of Python's
  binary floats is not part of the model. Python's integers are \<open>int\<close>. A raised
  exception is the \<open>Inl\<close> of a result.
\<close>

subsection \<open>Values and errors\<close>

datatype error = TypeError | IndexError | KeyError | ValueError

text \<open>What a cell of a result table can hold.\<close>

datatype cell = StrVal string | IntVal int | FloatVal rat | NoneVal | NaN

definition bind_result :: "error + 'a \<Rightarrow> ('a \<Rightarrow> error + 'b) \<Rightarrow> error + 'b" where
  "bind_result r f = (case r of Inl e \<Rightarrow> Inl e | Inr x \<Rightarrow> f x)"

subsection \<open>Model data\<close>

text \<open>
  The class \<^verbatim>\<open>ThermalGeneratorModelData\<close> is imported by the fixtures, not defined
  there. It is taken as a parameter: a record of the four attributes that
  \<^verbatim>\<open>TestingModel\<close> reads, \<^verbatim>\<open>p_cost\<close> being a list of pairs as the indexing
  \<^verbatim>\<open>p_cost[0][1]\<close> asks for.
\<close>

record thermal_generator_model_data =
  gen_name :: string
  p_min :: rat
  p_max :: rat
  p_cost :: "(rat \<times> rat) list"

text \<open>
  Whatever may be handed to the constructor: thermal generator data, the data of the
  base class, or anything else.
\<close>

datatype model_data_obj =
    ThermalGeneratorModelData thermal_generator_model_data
  | GeneratorModelData
  | OtherObject

fun isinstance_ThermalGeneratorModelData :: "model_data_obj \<Rightarrow> bool" where
  "isinstance_ThermalGeneratorModelData (ThermalGeneratorModelData d) = True"
| "isinstance_ThermalGeneratorModelData GeneratorModelData = False"
| "isinstance_ThermalGeneratorModelData OtherObject = False"

subsection \<open>Data frames\<close>

text \<open>
  A table of results: the column labels, and the rows as lists of cells in column order.
\<close>

record frame =
  columns :: "string list"
  rows :: "cell list list"

subsection \<open>The TestingModel object\<close>

record testing_model =
  model_data :: thermal_generator_model_data
  generator :: string
  result_list :: "frame list"
  pmin :: rat
  pmax :: rat
  marginal_cost :: rat

text \<open>
  \<^verbatim>\<open>TestingModel.__init__\<close>: the type check first, then the attributes;
  \<^verbatim>\<open>p_cost[0][1]\<close> raises IndexError on an empty list.
\<close>

definition TestingModel_init :: "model_data_obj \<Rightarrow> error + testing_model" where
  "TestingModel_init md =
     (if \<not> isinstance_ThermalGeneratorModelData md then Inl TypeError
      else case md of
        ThermalGeneratorModelData d \<Rightarrow>
          (case p_cost d of
             [] \<Rightarrow> Inl IndexError
           | pr # _ \<Rightarrow>
               Inr \<lparr>model_data = d, generator = gen_name d, result_list = [],
                    pmin = p_min d, pmax = p_max d, marginal_cost = snd pr\<rparr>)
      | _ \<Rightarrow> Inl TypeError)"

text \<open>
  The generator of the fixtures (\<^verbatim>\<open>testing_generator_params\<close>), as far as
  \<^verbatim>\<open>TestingModel\<close> reads it; \<^verbatim>\<open>p_cost\<close> is taken to be the production cost bid
  pairs.
\<close>

definition testing_model_data :: thermal_generator_model_data where
  "testing_model_data =
     \<lparr>gen_name = ''10_STEAM'', p_min = 30, p_max = 76,
      p_cost = [(30, 30), (453 / 10, 30), (607 / 10, 30), (76, 30)]\<rparr>"

subsection \<open>Python and pandas primitives\<close>

text \<open>
  \<^verbatim>\<open>round(x, ndigits)\<close>: to the nearest multiple of \<open>10\<^sup>-\<^sup>n\<close>, a tie going
  to the even neighbour.
\<close>

definition py_round :: "rat \<Rightarrow> nat \<Rightarrow> rat" where
  "py_round x ndigits =
     (let y = x * 10 ^ ndigits; f = \<lfloor>y\<rfloor>; d = y - of_int f
      in of_int (if d < 1 / 2 then f
                 else if 1 / 2 < d then f + 1
                 else if even f then f else f + 1) / 10 ^ ndigits)"

text \<open>A list comprehension whose element expression may raise.\<close>

fun map_result :: "('a \<Rightarrow> error + 'b) \<Rightarrow> 'a list \<Rightarrow> error + 'b list" where
  "map_result f [] = Inr []"
| "map_result f (x # xs) =
     bind_result (f x) (\<lambda>y. bind_result (map_result f xs) (\<lambda>ys. Inr (y # ys)))"

text \<open>Subscripting an indexed component or a dict: a missing key raises KeyError.\<close>

definition get_item :: "('k \<rightharpoonup> 'v) \<Rightarrow> 'k \<Rightarrow> error + 'v" where
  "get_item m k = (case m k of None \<Rightarrow> Inl KeyError | Some v \<Rightarrow> Inr v)"

text \<open>
  A Python dict keeps its keys in insertion order, and an assignment to a key already
  present replaces the value where it stands: \<^const>\<open>AList.update\<close>. A sequence of
  assignments \<^verbatim>\<open>d[k] = v\<close>:
\<close>

definition assign_all :: "(string \<times> cell) list \<Rightarrow> (string \<times> cell) list \<Rightarrow> (string \<times> cell) list" where
  "assign_all kvs d = fold (\<lambda>(k, v). AList.update k v) kvs d"

text \<open>
  \<^verbatim>\<open>pd.DataFrame.from_dict(d, orient="index").T\<close>: one row, the keys of the dict as
  columns.
\<close>

definition from_dict_T :: "(string \<times> cell) list \<Rightarrow> frame" where
  "from_dict_T d = \<lparr>columns = map fst d, rows = [map snd d]\<rparr>"

text \<open>
  \<^verbatim>\<open>pd.concat\<close> of a list of frames: no frame at all is a ValueError; otherwise the
  columns are the union of the frames' columns in the order of their first appearance,
  the rows of all frames follow each other, and a row has NaN in a column its frame
  lacks.
\<close>

definition ordered_union :: "string list \<Rightarrow> string list" where
  "ordered_union xs = fold (\<lambda>x acc. if x \<in> set acc then acc else acc @ [x]) xs []"

definition reindex :: "string list \<Rightarrow> frame \<Rightarrow> cell list list" where
  "reindex cols df =
     map (\<lambda>r. map (\<lambda>c. case map_of (zip (columns df) r) c of Some v \<Rightarrow> v | None \<Rightarrow> NaN) cols)
       (rows df)"

definition pd_concat :: "frame list \<Rightarrow> error + frame" where
  "pd_concat dfs =
     (if dfs = [] then Inl ValueError
      else let cols = ordered_union (concat (map columns dfs))
           in Inr \<lparr>columns = cols, rows = concat (map (reindex cols) dfs)\<rparr>)"


subsection \<open>Blocks of the optimisation model\<close>

text \<open>
  The components \<^verbatim>\<open>populate_model\<close> puts on a block. A variable carries its value
  and its bounds; an expression is a term over the variables and parameters, evaluated
  against the block's current values by \<^verbatim>\<open>pyo.value\<close>. A parameter that is not
  mutable enters an expression as its constant.
\<close>

record var_data =
  var_value :: rat
  lb :: rat
  ub :: rat

datatype expr =
    VarRef int
  | PreRef
  | Const rat
  | Product expr expr
  | Difference expr expr

record block =
  HOUR :: "int list"
  marginal_cost_param :: rat
  Pmax :: rat
  Pmin :: rat
  pre_P_T :: rat
  P_T :: "int \<rightharpoonup> var_data"
  prod_cost_approx :: "int \<rightharpoonup> expr"
  tot_cost :: "int \<rightharpoonup> expr"

fun pyo_value :: "block \<Rightarrow> expr \<Rightarrow> error + rat" where
  "pyo_value b (VarRef t) = bind_result (get_item (P_T b) t) (\<lambda>v. Inr (var_value v))"
| "pyo_value b PreRef = Inr (pre_P_T b)"
| "pyo_value b (Const c) = Inr c"
| "pyo_value b (Product e1 e2) =
     bind_result (pyo_value b e1) (\<lambda>x. bind_result (pyo_value b e2) (\<lambda>y. Inr (x * y)))"
| "pyo_value b (Difference e1 e2) =
     bind_result (pyo_value b e1) (\<lambda>x. bind_result (pyo_value b e2) (\<lambda>y. Inr (x - y)))"

text \<open>A component indexed by a set: the rule gives the entry of each index.\<close>

definition pyo_indexed :: "int list \<Rightarrow> (int \<Rightarrow> 'a option) \<Rightarrow> (int \<rightharpoonup> 'a)" where
  "pyo_indexed idx rule = (\<lambda>h. if h \<in> set idx then rule h else None)"

text \<open>
  The rules of the two expressions. \<^verbatim>\<open>b.P_T[h]\<close> and \<^verbatim>\<open>b.prod_cost_approx[h]\<close>
  exist for the indices the rules are called on; \<open>None\<close> is the KeyError of any other
  index.
\<close>

definition prod_cost_fun :: "block \<Rightarrow> int \<Rightarrow> expr option" where
  "prod_cost_fun b h =
     map_option (\<lambda>v. Product (VarRef h) (Const (marginal_cost_param b))) (P_T b h)"

definition tot_cost_fun :: "block \<Rightarrow> int \<Rightarrow> expr option" where
  "tot_cost_fun b h = prod_cost_approx b h"

text \<open>
  \<^verbatim>\<open>populate_model\<close>, on a fresh block: the set, the parameters, the variable, then
  the two expressions, each built from the components declared before it.
\<close>

definition populate_model :: "testing_model \<Rightarrow> int \<Rightarrow> block" where
  "populate_model self horizon =
     (let hours = [0..horizon - 1];
          b1 = \<lparr>HOUR = hours,
                marginal_cost_param = marginal_cost self,
                Pmax = pmax self,
                Pmin = pmin self,
                pre_P_T = pmin self,
                P_T = pyo_indexed hours
                  (\<lambda>h. Some \<lparr>var_value = pmin self, lb = pmin self, ub = pmax self\<rparr>),
                prod_cost_approx = Map.empty,
                tot_cost = Map.empty\<rparr>;
          b2 = b1\<lparr>prod_cost_approx := pyo_indexed (HOUR b1) (prod_cost_fun b1)\<rparr>;
          b3 = b2\<lparr>tot_cost := pyo_indexed (HOUR b2) (tot_cost_fun b2)\<rparr>
      in b3)"

text \<open>
  Between \<^verbatim>\<open>populate_model\<close> and the later calls a solver gives the variables their
  values; the solver is outside these sources. \<open>load_values b vals\<close> is the block \<open>b\<close>
  with the value \<open>vals t\<close> in every variable \<^verbatim>\<open>P_T[t]\<close> it has.
\<close>

definition load_values :: "block \<Rightarrow> (int \<Rightarrow> rat) \<Rightarrow> block" where
  "load_values b vals =
     b\<lparr>P_T := (\<lambda>t. map_option (\<lambda>v. v\<lparr>var_value := vals t\<rparr>) (P_T b t))\<rparr>"

subsection \<open>Updating the model and reading the implemented profile\<close>

text \<open>
  \<^verbatim>\<open>_update_power\<close>: \<^verbatim>\<open>implemented_power_output[-1]\<close> raises IndexError on an
  empty sequence; the assignment sets the value of the mutable parameter.
\<close>

definition update_power :: "block \<Rightarrow> rat list \<Rightarrow> error + block" where
  "update_power b implemented_power_output =
     (if implemented_power_output = [] then Inl IndexError
      else Inr (b\<lparr>pre_P_T := py_round (last implemented_power_output) 2\<rparr>))"

definition update_model :: "testing_model \<Rightarrow> block \<Rightarrow> rat list \<Rightarrow> error + block" where
  "update_model self b implemented_power_output = update_power b implemented_power_output"

definition get_implemented_profile :: "block \<Rightarrow> int \<Rightarrow> error + (string \<times> rat list) list" where
  "get_implemented_profile b last_implemented_time_step =
     bind_result
       (map_result (\<lambda>t. pyo_value b (VarRef t)) [0..last_implemented_time_step + 1 - 1])
       (\<lambda>implemented_power_output.
          Inr [(''implemented_power_output'', implemented_power_output)])"

definition get_last_delivered_power :: "block \<Rightarrow> int \<Rightarrow> error + rat" where
  "get_last_delivered_power b last_implemented_time_step =
     pyo_value b (VarRef last_implemented_time_step)"

subsection \<open>Recording and writing results\<close>

text \<open>
  The body of the loop of \<^verbatim>\<open>record_results\<close> for one time step: the dict of the
  row, filled in the order of the assignments, the keyword arguments last.
\<close>

definition result_dict ::
  "testing_model \<Rightarrow> block \<Rightarrow> cell \<Rightarrow> cell \<Rightarrow> (string \<times> cell) list \<Rightarrow> int
     \<Rightarrow> error + (string \<times> cell) list" where
  "result_dict self b date hour kwargs t =
     bind_result (pyo_value b (VarRef t)) (\<lambda>p.
     bind_result (bind_result (get_item (prod_cost_approx b) t) (pyo_value b)) (\<lambda>pc.
     bind_result (bind_result (get_item (tot_cost b) t) (pyo_value b)) (\<lambda>tc.
     bind_result
       (if t = 0 then pyo_value b (Difference (VarRef t) PreRef)
        else pyo_value b (Difference (VarRef t) (VarRef (t - 1)))) (\<lambda>m.
     Inr (assign_all
            ([(''Generator'', StrVal (generator self)),
              (''Date'', date),
              (''Hour'', hour),
              (''Horizon [hr]'', IntVal t),
              (''Thermal Power Generated [MW]'', FloatVal (py_round p 2)),
              (''Production Cost [$]'', FloatVal (py_round pc 2)),
              (''Total Cost [$]'', FloatVal (py_round tc 2)),
              (''Mileage [MW]'', FloatVal (py_round \<bar>m\<bar> 2))] @ kwargs) [])))))"

definition record_results ::
  "testing_model \<Rightarrow> block \<Rightarrow> cell \<Rightarrow> cell \<Rightarrow> (string \<times> cell) list \<Rightarrow> error + testing_model" where
  "record_results self b date hour kwargs =
     bind_result
       (map_result
          (\<lambda>t. bind_result (result_dict self b date hour kwargs t)
                 (\<lambda>d. Inr (from_dict_T d)))
          (HOUR b)) (\<lambda>df_list.
     bind_result (pd_concat df_list) (\<lambda>df.
     Inr (self\<lparr>result_list := result_list self @ [df]\<rparr>)))"

text \<open>
  \<^verbatim>\<open>write_results\<close>: the frame handed to \<^verbatim>\<open>to_csv\<close>; the file itself is
  outside the model.
\<close>

definition write_results :: "testing_model \<Rightarrow> error + frame" where
  "write_results self = pd_concat (result_list self)"

definition power_output :: "testing_model \<Rightarrow> string" where
  "power_output self = ''P_T''"

definition total_cost :: "testing_model \<Rightarrow> string \<times> int" where
  "total_cost self = (''tot_cost'', 1)"

text \<open>The eight columns every row starts with.\<close>

definition fixed_columns :: "string list" where
  "fixed_columns =
     [''Generator'', ''Date'', ''Hour'', ''Horizon [hr]'', ''Thermal Power Generated [MW]'',
      ''Production Cost [$]'', ''Total Cost [$]'', ''Mileage [MW]'']"

subsection \<open>The forecaster\<close>

record testing_forecaster =
  prediction :: rat

text \<open>
  \<^verbatim>\<open>_forecast\<close>: a dict, in the order of its keys \<^verbatim>\<open>range(n_samples)\<close>, each value
  the list \<^verbatim>\<open>[prediction] * horizon\<close>.
\<close>

definition forecast :: "testing_forecaster \<Rightarrow> int \<Rightarrow> int \<Rightarrow> rat \<Rightarrow> (int \<times> rat list) list" where
  "forecast self horizon n_samples pred =
     map (\<lambda>i. (i, replicate (nat horizon) pred)) [0..n_samples - 1]"

definition forecast_real_time_prices ::
  "testing_forecaster \<Rightarrow> cell \<Rightarrow> cell \<Rightarrow> string \<Rightarrow> int \<Rightarrow> int \<Rightarrow> (int \<times> rat list) list" where
  "forecast_real_time_prices self date hour bus horizon n_samples =
     forecast self horizon n_samples 0"

definition forecast_day_ahead_prices ::
  "testing_forecaster \<Rightarrow> cell \<Rightarrow> cell \<Rightarrow> string \<Rightarrow> int \<Rightarrow> int \<Rightarrow> (int \<times> rat list) list" where
  "forecast_day_ahead_prices self date hour bus horizon n_samples =
     forecast self horizon n_samples (prediction self)"

definition forecast_day_ahead_and_real_time_prices ::
  "testing_forecaster \<Rightarrow> cell \<Rightarrow> cell \<Rightarrow> string \<Rightarrow> int \<Rightarrow> int
     \<Rightarrow> (int \<times> rat list) list \<times> (int \<times> rat list) list" where
  "forecast_day_ahead_and_real_time_prices self date hour bus horizon n_samples =
     (let rt_forecast = forecast_real_time_prices self date hour bus horizon n_samples;
          da_forecast = forecast_day_ahead_prices self date hour bus horizon n_samples
      in (da_forecast, rt_forecast))"

definition make_testing_forecaster :: testing_forecaster where
  "make_testing_forecaster = \<lparr>prediction = 30\<rparr>"

subsection \<open>The methods as operations on the object\<close>

text \<open>
  The methods and properties of \<^verbatim>\<open>TestingModel\<close>, as calls on a model object and
  the block it works on. A call returns the object and the block as it leaves them, and
  the error it raised or the value it returned. A method that raises has made no assignment
  before: in \<^verbatim>\<open>record_results\<close> the append is the last statement.
\<close>

datatype method_call =
    Populate_model int
  | Update_power "rat list"
  | Update_model "rat list"
  | Get_implemented_profile int
  | Get_last_delivered_power int
  | Record_results cell cell "(string \<times> cell) list"
  | Write_results
  | Get_model_data
  | Get_power_output
  | Get_total_cost

datatype return_value =
    RetNone
  | RetProfile "(string \<times> rat list) list"
  | RetPower rat
  | RetData thermal_generator_model_data
  | RetName string
  | RetCost "string \<times> int"

fun call :: "method_call \<Rightarrow> testing_model \<times> block
    \<Rightarrow> (testing_model \<times> block) \<times> (error + return_value)" where
  "call (Populate_model horizon) (self, b) = ((self, populate_model self horizon), Inr RetNone)"
| "call (Update_power ipo) (self, b) =
     (case update_power b ipo of
        Inl e \<Rightarrow> ((self, b), Inl e)
      | Inr b' \<Rightarrow> ((self, b'), Inr RetNone))"
| "call (Update_model ipo) (self, b) =
     (case update_model self b ipo of
        Inl e \<Rightarrow> ((self, b), Inl e)
      | Inr b' \<Rightarrow> ((self, b'), Inr RetNone))"
| "call (Get_implemented_profile k) (self, b) =
     ((self, b), map_sum id RetProfile (get_implemented_profile b k))"
| "call (Get_last_delivered_power k) (self, b) =
     ((self, b), map_sum id RetPower (get_last_delivered_power b k))"
| "call (Record_results date hour kwargs) (self, b) =
     (case record_results self b date hour kwargs of
        Inl e \<Rightarrow> ((self, b), Inl e)
      | Inr self' \<Rightarrow> ((self', b), Inr RetNone))"
| "call Write_results (self, b) = ((self, b), map_sum id (\<lambda>df. RetNone) (write_results self))"
| "call Get_model_data (self, b) = ((self, b), Inr (RetData (model_data self)))"
| "call Get_power_output (self, b) = ((self, b), Inr (RetName (power_output self)))"
| "call Get_total_cost (self, b) = ((self, b), Inr (RetCost (total_cost self)))"

subsection \<open>The objects of the fixtures\<close>

text \<open>
  The model object that \<^verbatim>\<open>make_testing_tracker\<close> and \<^verbatim>\<open>make_testing_bidder\<close>
  construct from \<^verbatim>\<open>testing_model_data\<close>.
\<close>

definition testing_model_object :: testing_model where
  "testing_model_object =
     \<lparr>model_data = testing_model_data, generator = ''10_STEAM'', result_list = [],
      pmin = 30, pmax = 76, marginal_cost = 30\<rparr>"

text \<open>
  A block of that object over two hours, after a solve that left 30.0625 MW and 45 MW in
  the two power variables, the previous power being 30 MW.
\<close>

definition example_block :: block where
  "example_block =
     (load_values (populate_model testing_model_object 2) (\<lambda>t. if t = 0 then 481 / 16 else 45))
       \<lparr>pre_P_T := 30\<rparr>"

section \<open>Theorems\<close>

subsection \<open>Auxiliary facts\<close>

lemma floor_rat_numeral [simp]:
  "\<lfloor>numeral a / numeral b :: rat\<rfloor> = numeral a div numeral b"
  "\<lfloor>- (numeral a / numeral b) :: rat\<rfloor> = - numeral a div numeral b"
  using floor_divide_of_int_eq [of "numeral a" "numeral b", where ?'a = rat]
    floor_divide_of_int_eq [of "- numeral a" "numeral b", where ?'a = rat]
  by simp_all

text \<open>\<^const>\<open>py_round\<close> is a rounding: its value is a multiple of \<open>10\<^sup>-\<^sup>n\<close> at most half a unit away.\<close>

lemma py_round_grid: "\<exists>k::int. py_round x n = of_int k / 10 ^ n"
  unfolding py_round_def Let_def by blast

lemma py_round_near: "\<bar>py_round x n - x\<bar> \<le> 1 / (2 * 10 ^ n)"
proof -
  define y where "y = x * 10 ^ n"
  define f where "f = \<lfloor>y\<rfloor>"
  define d where "d = y - of_int f"
  define k where
    "k = (if d < 1 / 2 then f else if 1 / 2 < d then f + 1 else if even f then f else f + 1)"
  have d: "0 \<le> d" "d < 1"
    unfolding d_def f_def by linarith+
  have pr: "py_round x n = of_int k / 10 ^ n"
    unfolding py_round_def Let_def k_def d_def f_def y_def by simp
  have a: "\<bar>of_int k - y\<bar> \<le> 1 / 2"
    using d unfolding k_def d_def by (auto split: if_splits)
  have e: "py_round x n - x = (of_int k - y) / 10 ^ n"
    unfolding pr y_def by (simp add: field_simps)
  have "\<bar>of_int k - y\<bar> / 10 ^ n \<le> (1 / 2) / 10 ^ n"
    using a by (rule divide_right_mono) simp
  then show ?thesis
    unfolding e by (simp add: abs_divide)
qed

lemma forecast_keys: "map fst (forecast self horizon n pred) = [0..n - 1]"
  by (simp add: forecast_def comp_def)

lemma forecast_entries:
  "(i, xs) \<in> set (forecast self horizon n pred) \<Longrightarrow> xs = replicate (nat horizon) pred"
  by (auto simp: forecast_def)

lemma bind_result_Inr [simp]: "bind_result (Inr x) f = f x"
  by (simp add: bind_result_def)

lemma bind_result_Inl [simp]: "bind_result (Inl e) f = Inl e"
  by (simp add: bind_result_def)

lemma map_result_Inr:
  "(\<And>x. x \<in> set xs \<Longrightarrow> f x = Inr (g x)) \<Longrightarrow> map_result f xs = Inr (map g xs)"
  by (induction xs) simp_all

lemma set_upto_horizon: "{0..horizon - 1} = {0..<horizon::int}"
  by auto

lemma HOUR_populate_model [simp]: "HOUR (populate_model self horizon) = [0..horizon - 1]"
  by (simp add: populate_model_def Let_def)

lemma P_T_populate_model:
  "P_T (populate_model self horizon) t =
     (if 0 \<le> t \<and> t < horizon then Some \<lparr>var_value = pmin self, lb = pmin self, ub = pmax self\<rparr>
      else None)"
  by (simp add: populate_model_def Let_def pyo_indexed_def)

lemma prod_cost_approx_populate_model:
  "prod_cost_approx (populate_model self horizon) t =
     (if 0 \<le> t \<and> t < horizon then Some (Product (VarRef t) (Const (marginal_cost self)))
      else None)"
  by (simp add: populate_model_def Let_def pyo_indexed_def prod_cost_fun_def)

lemma tot_cost_populate_model:
  "tot_cost (populate_model self horizon) t = prod_cost_approx (populate_model self horizon) t"
  by (simp add: populate_model_def Let_def pyo_indexed_def prod_cost_fun_def tot_cost_fun_def)

lemma TestingModel_init_InrD:
  "TestingModel_init md = Inr self \<Longrightarrow>
     \<exists>d. md = ThermalGeneratorModelData d \<and> p_cost d \<noteq> [] \<and> model_data self = d
       \<and> generator self = gen_name d \<and> result_list self = []
       \<and> pmin self = p_min d \<and> pmax self = p_max d \<and> marginal_cost self = snd (hd (p_cost d))"
  by (cases md) (auto simp: TestingModel_init_def split: list.splits)

lemma make_testing_model:
  "TestingModel_init (ThermalGeneratorModelData testing_model_data) = Inr testing_model_object"
  by (simp add: TestingModel_init_def testing_model_data_def testing_model_object_def)

lemma P_T_load_values:
  "P_T (load_values (populate_model self horizon) vals) t =
     (if 0 \<le> t \<and> t < horizon then Some \<lparr>var_value = vals t, lb = pmin self, ub = pmax self\<rparr>
      else None)"
  by (simp add: load_values_def P_T_populate_model)


lemma load_values_fields [simp]:
  "HOUR (load_values b vals) = HOUR b"
  "prod_cost_approx (load_values b vals) = prod_cost_approx b"
  "tot_cost (load_values b vals) = tot_cost b"
  "pre_P_T (load_values b vals) = pre_P_T b"
  "marginal_cost_param (load_values b vals) = marginal_cost_param b"
  by (simp_all add: load_values_def)

lemma fold_union_subset:
  "set xs \<subseteq> set acc \<Longrightarrow> fold (\<lambda>x acc. if x \<in> set acc then acc else acc @ [x]) xs acc = acc"
  by (induction xs) simp_all

lemma fold_union_fresh:
  "distinct xs \<Longrightarrow> set xs \<inter> set acc = {} \<Longrightarrow>
     fold (\<lambda>x acc. if x \<in> set acc then acc else acc @ [x]) xs acc = acc @ xs"
  by (induction xs arbitrary: acc) auto


lemma keys_assign_all:
  "map fst (assign_all kvs d)
     = fold (\<lambda>x acc. if x \<in> set acc then acc else acc @ [x]) (map fst kvs) (map fst d)"
  unfolding assign_all_def
  by (induction kvs arbitrary: d) (simp_all add: update_keys split_beta)

lemma distinct_assign_all: "distinct (map fst d) \<Longrightarrow> distinct (map fst (assign_all kvs d))"
  unfolding assign_all_def
  by (induction kvs arbitrary: d) (simp_all add: distinct_update split_beta)


lemma ordered_union_same:
  assumes "dfs \<noteq> []" and "\<forall>df \<in> set dfs. columns df = cs" and "distinct cs"
  shows "ordered_union (concat (map columns dfs)) = cs"
proof -
  obtain df rest where dfs: "dfs = df # rest"
    using assms(1) by (cases dfs) auto
  have "set (concat (map columns rest)) \<subseteq> set cs"
    using assms(2) dfs by auto
  moreover have "fold (\<lambda>x acc. if x \<in> set acc then acc else acc @ [x]) cs [] = cs"
    using fold_union_fresh [OF assms(3), of "[]"] by simp
  moreover have "columns df = cs"
    using assms(2) dfs by simp
  ultimately show ?thesis
    by (simp add: ordered_union_def dfs fold_union_subset)
qed

lemma reindex_row_same:
  assumes "distinct cs" and "length r = length cs"
  shows "map (\<lambda>c. case map_of (zip cs r) c of Some v \<Rightarrow> v | None \<Rightarrow> NaN) cs = r"
proof (rule nth_equalityI)
  show "length (map (\<lambda>c. case map_of (zip cs r) c of Some v \<Rightarrow> v | None \<Rightarrow> NaN) cs) = length r"
    using assms(2) by simp
next
  fix i
  assume "i < length (map (\<lambda>c. case map_of (zip cs r) c of Some v \<Rightarrow> v | None \<Rightarrow> NaN) cs)"
  then have i: "i < length r"
    using assms(2) by simp
  have "map_of (zip cs r) (cs ! i) = Some (r ! i)"
    using assms i by (intro map_of_zip_nth) simp_all
  then show "map (\<lambda>c. case map_of (zip cs r) c of Some v \<Rightarrow> v | None \<Rightarrow> NaN) cs ! i = r ! i"
    using i assms(2) by simp
qed

lemma reindex_same:
  assumes "distinct (columns df)" and "\<forall>r \<in> set (rows df). length r = length (columns df)"
  shows "reindex (columns df) df = rows df"
  unfolding reindex_def using assms by (simp add: reindex_row_same map_idI)

lemma pd_concat_same:
  assumes "dfs \<noteq> []" and "\<forall>df \<in> set dfs. columns df = cs" and "distinct cs"
    and "\<forall>df \<in> set dfs. \<forall>r \<in> set (rows df). length r = length cs"
  shows "pd_concat dfs = Inr \<lparr>columns = cs, rows = concat (map rows dfs)\<rparr>"
proof -
  have "map (reindex cs) dfs = map rows dfs"
  proof (rule map_cong [OF refl])
    fix df assume "df \<in> set dfs"
    then have "columns df = cs" "\<forall>r \<in> set (rows df). length r = length (columns df)"
      using assms(2,4) by auto
    then show "reindex cs df = rows df"
      using reindex_same [of df] assms(3) by simp
  qed
  then have "concat (map (reindex cs) dfs) = concat (map rows dfs)"
    by (simp only:)
  then show ?thesis
    using assms(1) by (simp add: pd_concat_def Let_def ordered_union_same [OF assms(1-3)])
qed

lemma map_result_InrD:
  "map_result f xs = Inr ys \<Longrightarrow> length ys = length xs \<and> (\<forall>i < length xs. f (xs ! i) = Inr (ys ! i))"
proof (induction xs arbitrary: ys)
  case Nil
  then show ?case by simp
next
  case (Cons x xs)
  from Cons.prems obtain y ys' where y: "f x = Inr y" and ys': "map_result f xs = Inr ys'"
    and ys: "ys = y # ys'"
    by (auto simp: bind_result_def split: sum.splits)
  from Cons.IH [OF ys'] show ?case
    using y ys by (auto simp: nth_Cons split: nat.splits)
qed



lemma map_result_projr:
  assumes "map_result f xs = Inr ys"
  shows "ys = map (\<lambda>x. projr (f x)) xs" and "\<forall>x \<in> set xs. f x = Inr (projr (f x))"
proof -
  from map_result_InrD [OF assms]
  have l: "length ys = length xs" and n: "\<forall>i < length xs. f (xs ! i) = Inr (ys ! i)"
    by simp_all
  show "ys = map (\<lambda>x. projr (f x)) xs"
    using l n by (intro nth_equalityI) simp_all
  show "\<forall>x \<in> set xs. f x = Inr (projr (f x))"
    using n by (auto simp: in_set_conv_nth)
qed

lemma fixed_columns_distinct: "distinct fixed_columns"
  by (simp add: fixed_columns_def)

lemma result_dict_InrD:
  assumes "result_dict self b date hour kwargs t = Inr d"
  shows "\<exists>row. d = assign_all kwargs row \<and> map fst row = fixed_columns
           \<and> map_of row ''Horizon [hr]'' = Some (IntVal t)"
proof -
  from assms obtain p pc tc m where
    "d = assign_all
            ([(''Generator'', StrVal (generator self)),
              (''Date'', date),
              (''Hour'', hour),
              (''Horizon [hr]'', IntVal t),
              (''Thermal Power Generated [MW]'', FloatVal (py_round p 2)),
              (''Production Cost [$]'', FloatVal (py_round pc 2)),
              (''Total Cost [$]'', FloatVal (py_round tc 2)),
              (''Mileage [MW]'', FloatVal (py_round \<bar>m\<bar> 2))] @ kwargs) []"
    unfolding result_dict_def by (auto simp: bind_result_def split: sum.splits)
  then have "d = assign_all kwargs
            [(''Generator'', StrVal (generator self)),
              (''Date'', date),
              (''Hour'', hour),
              (''Horizon [hr]'', IntVal t),
              (''Thermal Power Generated [MW]'', FloatVal (py_round p 2)),
              (''Production Cost [$]'', FloatVal (py_round pc 2)),
              (''Total Cost [$]'', FloatVal (py_round tc 2)),
              (''Mileage [MW]'', FloatVal (py_round \<bar>m\<bar> 2))]"
    by (simp add: assign_all_def)
  then show ?thesis
    by (intro exI conjI, assumption) (simp_all add: fixed_columns_def)
qed

lemma result_dict_keys:
  assumes "result_dict self b date hour kwargs t = Inr d"
  shows "map fst d
           = fold (\<lambda>x acc. if x \<in> set acc then acc else acc @ [x]) (map fst kwargs) fixed_columns"
    and "distinct (map fst d)"
proof -
  from result_dict_InrD [OF assms] obtain row where
    d: "d = assign_all kwargs row" and row: "map fst row = fixed_columns"
    by blast
  show "map fst d
           = fold (\<lambda>x acc. if x \<in> set acc then acc else acc @ [x]) (map fst kwargs) fixed_columns"
    unfolding d keys_assign_all row ..
  show "distinct (map fst d)"
    unfolding d using fixed_columns_distinct row by (intro distinct_assign_all) simp
qed

lemma record_results_rows:
  assumes D: "\<forall>t \<in> set (HOUR b). result_dict self b date hour kwargs t = Inr (D t)"
    and ne: "HOUR b \<noteq> []"
  shows "record_results self b date hour kwargs
           = Inr (self\<lparr>result_list := result_list self @
                   [\<lparr>columns = fold (\<lambda>x acc. if x \<in> set acc then acc else acc @ [x])
                                 (map fst kwargs) fixed_columns,
                     rows = map (\<lambda>t. map snd (D t)) (HOUR b)\<rparr>]\<rparr>)"
proof -
  let ?cs = "fold (\<lambda>x acc. if x \<in> set acc then acc else acc @ [x]) (map fst kwargs) fixed_columns"
  let ?dfs = "map (\<lambda>t. from_dict_T (D t)) (HOUR b)"
  have k: "map fst (D t) = ?cs" "distinct (map fst (D t))" if "t \<in> set (HOUR b)" for t
    using result_dict_keys [of self b date hour kwargs t "D t"] D that by auto
  have m: "map_result
          (\<lambda>t. bind_result (result_dict self b date hour kwargs t) (\<lambda>d. Inr (from_dict_T d)))
          (HOUR b) = Inr ?dfs"
    by (rule map_result_Inr) (simp add: D)
  have dc: "distinct ?cs"
    using k [of "hd (HOUR b)"] ne by simp
  have len: "length (map snd (D t)) = length ?cs" if "t \<in> set (HOUR b)" for t
    using k(1) [OF that, symmetric] by simp
  have c: "pd_concat ?dfs = Inr \<lparr>columns = ?cs, rows = concat (map rows ?dfs)\<rparr>"
    using ne k(1) dc len by (intro pd_concat_same) (auto simp: from_dict_T_def)
  have r: "concat (map rows ?dfs) = map (\<lambda>t. map snd (D t)) (HOUR b)"
    by (simp add: from_dict_T_def comp_def)
  show ?thesis
    unfolding r [symmetric] by (simp add: record_results_def m c)
qed

lemma record_results_InrD:
  assumes "record_results self b date hour kwargs = Inr self'"
  shows "HOUR b \<noteq> []"
    and "\<forall>t \<in> set (HOUR b). result_dict self b date hour kwargs t
           = Inr (projr (result_dict self b date hour kwargs t))"
proof -
  let ?f = "\<lambda>t. bind_result (result_dict self b date hour kwargs t) (\<lambda>d. Inr (from_dict_T d))"
  from assms obtain dfs df where m: "map_result ?f (HOUR b) = Inr dfs"
    and c: "pd_concat dfs = Inr df"
    unfolding record_results_def by (auto simp: bind_result_def split: sum.splits)
  from map_result_InrD [OF m] have l: "length dfs = length (HOUR b)"
    by simp
  from c have "dfs \<noteq> []"
    by (auto simp: pd_concat_def)
  with l show "HOUR b \<noteq> []"
    by auto
  show "\<forall>t \<in> set (HOUR b). result_dict self b date hour kwargs t
           = Inr (projr (result_dict self b date hour kwargs t))"
  proof
    fix t
    assume "t \<in> set (HOUR b)"
    with map_result_projr(2) [OF m] have "?f t = Inr (projr (?f t))"
      by blast
    then show "result_dict self b date hour kwargs t
           = Inr (projr (result_dict self b date hour kwargs t))"
      by (cases "result_dict self b date hour kwargs t") simp_all
  qed
qed


lemma record_results_InrE:
  assumes "record_results self b date hour kwargs = Inr self'"
  obtains D where "\<forall>t \<in> set (HOUR b). result_dict self b date hour kwargs t = Inr (D t)"
    and "HOUR b \<noteq> []"
    and "self' = self\<lparr>result_list := result_list self @
                   [\<lparr>columns = fold (\<lambda>x acc. if x \<in> set acc then acc else acc @ [x])
                                 (map fst kwargs) fixed_columns,
                     rows = map (\<lambda>t. map snd (D t)) (HOUR b)\<rparr>]\<rparr>"
proof -
  let ?D = "\<lambda>t. projr (result_dict self b date hour kwargs t)"
  note d = record_results_InrD [OF assms]
  from record_results_rows [of b self date hour kwargs ?D, OF d(2) d(1)] assms
  have "self' = self\<lparr>result_list := result_list self @
                   [\<lparr>columns = fold (\<lambda>x acc. if x \<in> set acc then acc else acc @ [x])
                                 (map fst kwargs) fixed_columns,
                     rows = map (\<lambda>t. map snd (?D t)) (HOUR b)\<rparr>]\<rparr>"
    by simp
  with d(2) d(1) show thesis
    by (rule that [of ?D])
qed

text \<open>The facts that evaluate \<^const>\<open>record_results\<close> on the example block.\<close>

lemmas record_results_eval =
  record_results_def result_dict_def example_block_def P_T_load_values
  prod_cost_approx_populate_model tot_cost_populate_model get_item_def upto.simps
  assign_all_def from_dict_T_def pd_concat_def ordered_union_def reindex_def Let_def py_round_def
  testing_model_object_def fixed_columns_def



subsection \<open>The constructor\<close>




subsection \<open>Building the block\<close>

text \<open>
  C7. For every horizon \<open>\<ge> 0\<close>, \<^verbatim>\<open>populate_model\<close> of a constructed
  \<^verbatim>\<open>TestingModel\<close> builds a block whose \<^verbatim>\<open>HOUR\<close> set is exactly the time steps
  \<open>0 .. horizon - 1\<close>, in that order; the power variable \<^verbatim>\<open>P_T\<close> is defined at
  exactly these steps, each with the value \<^verbatim>\<open>p_min\<close> and the bounds
  \<^verbatim>\<open>[p_min, p_max]\<close> of the model data; the parameter \<^verbatim>\<open>pre_P_T\<close> is
  \<^verbatim>\<open>p_min\<close>.
\<close>

theorem populate_model_components:
  assumes "TestingModel_init md = Inr self" and "0 \<le> horizon"
  shows "HOUR (populate_model self horizon) = [0..horizon - 1]
       \<and> set (HOUR (populate_model self horizon)) = {0..<horizon}
       \<and> int (length (HOUR (populate_model self horizon))) = horizon
       \<and> dom (P_T (populate_model self horizon)) = {0..<horizon}
       \<and> (\<forall>t \<in> {0..<horizon}. P_T (populate_model self horizon) t =
             Some \<lparr>var_value = p_min (model_data self), lb = p_min (model_data self),
                   ub = p_max (model_data self)\<rparr>)
       \<and> pre_P_T (populate_model self horizon) = p_min (model_data self)"
proof -
  from TestingModel_init_InrD [OF assms(1)]
  have m: "pmin self = p_min (model_data self)" "pmax self = p_max (model_data self)"
    by auto
  have "dom (P_T (populate_model self horizon)) = {0..<horizon}"
    by (auto simp: P_T_populate_model dom_def)
  moreover have "pre_P_T (populate_model self horizon) = pmin self"
    by (simp add: populate_model_def Let_def)
  ultimately show ?thesis
    using assms(2) by (simp add: P_T_populate_model m set_upto_horizon)
qed

theorem populate_model_components_witness:
  "HOUR (populate_model testing_model_object 4) = [0, 1, 2, 3]
   \<and>  P_T (populate_model testing_model_object 4) 3 = Some \<lparr>var_value = 30, lb = 30, ub = 76\<rparr>
   \<and> pre_P_T (populate_model testing_model_object 4) = 30"
  using populate_model_components [OF make_testing_model, of 4]
  by (simp add: testing_model_object_def testing_model_data_def upto.simps)



subsection \<open>Updating the block and reading the profile\<close>

text \<open>
  C8. On a non-empty list of implemented power outputs, \<^verbatim>\<open>update_model\<close> sets the
  block's \<^verbatim>\<open>pre_P_T\<close> to the last element rounded to two decimal places (a multiple
  of 0.01 at most 0.005 away from it) and changes no other component of the block:
  \<^verbatim>\<open>HOUR\<close>, \<^verbatim>\<open>Pmax\<close>, \<^verbatim>\<open>Pmin\<close>, \<^verbatim>\<open>marginal_cost\<close>, all of \<^verbatim>\<open>P_T\<close> and
  the two expressions are as before. On an empty list it fails, with an IndexError.
\<close>

theorem update_model_sets_pre_P_T:
  "(implemented_power_output \<noteq> [] \<longrightarrow>
      update_model self b implemented_power_output
        = Inr (b\<lparr>pre_P_T := py_round (last implemented_power_output) 2\<rparr>)
      \<and> (\<exists>k::int. py_round (last implemented_power_output) 2 = of_int k / 100)
      \<and> \<bar>py_round (last implemented_power_output) 2 - last implemented_power_output\<bar> \<le> 1 / 200)
   \<and> (\<forall>b'. update_model self b implemented_power_output = Inr b' \<longrightarrow>
          HOUR b' = HOUR b \<and> Pmax b' = Pmax b \<and> Pmin b' = Pmin b
          \<and> marginal_cost_param b' = marginal_cost_param b \<and> P_T b' = P_T b
          \<and> prod_cost_approx b' = prod_cost_approx b \<and> tot_cost b' = tot_cost b)
   \<and> (implemented_power_output = [] \<longrightarrow>
          update_model self b implemented_power_output = Inl IndexError)"
  using py_round_grid [of "last implemented_power_output" 2]
    py_round_near [of "last implemented_power_output" 2]
  by (auto simp: update_model_def update_power_def)

theorem update_model_sets_pre_P_T_witness:
  "update_model testing_model_object example_block [30, 4513 / 100, 481 / 16]
     = Inr (example_block\<lparr>pre_P_T := 1503 / 50\<rparr>)
   \<and> update_model testing_model_object example_block [] = Inl IndexError"
proof -
  have r: "py_round (481 / 16) 2 = 1503 / 50"
    by (simp add: py_round_def Let_def)
  have ne: "[30, 4513 / 100, 481 / 16] \<noteq> ([]::rat list)"
    by simp
  note a = update_model_sets_pre_P_T [of "[30, 4513 / 100, 481 / 16]" testing_model_object example_block,
      THEN conjunct1, rule_format, OF ne, THEN conjunct1]
  note b = update_model_sets_pre_P_T [of "[]" testing_model_object example_block,
      THEN conjunct2, THEN conjunct2, rule_format, OF refl]
  show ?thesis
    using a b by (simp add: r)
qed

text \<open>
  C9. For every block and every last implemented time step \<open>k \<ge> 0\<close> with \<^verbatim>\<open>P_T\<close>
  defined at the steps \<open>0 .. k\<close>, \<^verbatim>\<open>get_implemented_profile\<close> returns a mapping with
  the single key \<^verbatim>\<open>implemented_power_output\<close>, whose value is the sequence of the
  values of \<^verbatim>\<open>P_T\<close> at the steps \<open>0 .. k\<close>, of length \<open>k + 1\<close>, and
  \<^verbatim>\<open>get_last_delivered_power\<close> returns the last element of that sequence.
\<close>

theorem implemented_profile_values:
  assumes "0 \<le> k" and "\<forall>t \<in> {0..k}. t \<in> dom (P_T b)"
  shows "get_implemented_profile b k
           = Inr [(''implemented_power_output'', map (\<lambda>t. var_value (the (P_T b t))) [0..k])]
       \<and> length (map (\<lambda>t. var_value (the (P_T b t))) [0..k]) = nat k + 1
       \<and> get_last_delivered_power b k
           = Inr (last (map (\<lambda>t. var_value (the (P_T b t))) [0..k]))"
proof -
  have v: "pyo_value b (VarRef t) = Inr (var_value (the (P_T b t)))" if "t \<in> set [0..k]" for t
    using that assms(2) by (force simp: get_item_def dom_def)
  have "map_result (\<lambda>t. pyo_value b (VarRef t)) [0..k]
          = Inr (map (\<lambda>t. var_value (the (P_T b t))) [0..k])"
    by (rule map_result_Inr) (rule v)
  then have p: "get_implemented_profile b k
           = Inr [(''implemented_power_output'', map (\<lambda>t. var_value (the (P_T b t))) [0..k])]"
    by (simp add: get_implemented_profile_def)
  have u: "[0..k] = [0..k - 1] @ [k]"
    using assms(1) by (simp add: upto_rec2)
  have l: "get_last_delivered_power b k
           = Inr (last (map (\<lambda>t. var_value (the (P_T b t))) [0..k]))"
    unfolding get_last_delivered_power_def using v [of k] assms(1)
    by (subst u) simp
  show ?thesis
    using p l assms(1) by simp
qed

theorem implemented_profile_values_witness:
  "get_implemented_profile example_block 1 = Inr [(''implemented_power_output'', [481 / 16, 45])]
   \<and> get_last_delivered_power example_block 1 = Inr 45"
proof -
  have k: "(0::int) \<le> 1"
    by simp
  have d: "\<forall>t \<in> {0..1}. t \<in> dom (P_T example_block)"
    by (simp add: example_block_def P_T_load_values dom_def)
  from implemented_profile_values [OF k d] show ?thesis
    by (simp add: example_block_def P_T_load_values upto.simps)
qed

subsection \<open>Recording results\<close>






text \<open>
  C6. Whatever method or property of a constructed \<^verbatim>\<open>TestingModel\<close> is called,
  \<^verbatim>\<open>generator\<close>, \<^verbatim>\<open>pmin\<close>, \<^verbatim>\<open>pmax\<close>, \<^verbatim>\<open>marginal_cost\<close> and
  \<^verbatim>\<open>model_data\<close> are unchanged. Every call other than \<^verbatim>\<open>record_results\<close> leaves
  the whole object unchanged. A call of \<^verbatim>\<open>record_results\<close> that returns appends
  exactly one entry to \<^verbatim>\<open>result_list\<close>, the frame with one row per time step of the
  block, and changes nothing else; one that raises changes nothing.
\<close>

theorem record_results_only_mutator:
  assumes "call c (self, b) = ((self', b'), r)"
  shows "generator self' = generator self \<and> pmin self' = pmin self \<and> pmax self' = pmax self
       \<and> marginal_cost self' = marginal_cost self \<and> model_data self' = model_data self
       \<and> ((\<forall>date hour kwargs. c \<noteq> Record_results date hour kwargs) \<longrightarrow> self' = self)
       \<and> (\<forall>date hour kwargs. c = Record_results date hour kwargs \<longrightarrow>
            (case r of
               Inl e \<Rightarrow> self' = self
             | Inr v \<Rightarrow> \<exists>df. self' = self\<lparr>result_list := result_list self @ [df]\<rparr>
                          \<and> length (rows df) = length (HOUR b)))"
proof (cases c)
  case (Record_results date hour kwargs)
  show ?thesis
  proof (cases "record_results self b date hour kwargs")
    case (Inl e)
    with assms Record_results show ?thesis
      by auto
  next
    case (Inr s)
    from Inr obtain D where
      "\<forall>t \<in> set (HOUR b). result_dict self b date hour kwargs t = Inr (D t)"
      "HOUR b \<noteq> []"
      "s = self\<lparr>result_list := result_list self @
                   [\<lparr>columns = fold (\<lambda>x acc. if x \<in> set acc then acc else acc @ [x])
                                 (map fst kwargs) fixed_columns,
                     rows = map (\<lambda>t. map snd (D t)) (HOUR b)\<rparr>]\<rparr>"
      by (rule record_results_InrE)
    moreover from assms Record_results Inr have "self' = s" "r = Inr RetNone"
      by auto
    ultimately show ?thesis
      using Record_results by (auto intro!: exI)
  qed
qed (use assms in \<open>auto split: sum.splits\<close>)

theorem record_results_only_mutator_witness:
  "call (Record_results NoneVal NoneVal []) (testing_model_object, example_block)
     = ((testing_model_object\<lparr>result_list := result_list testing_model_object @
          [\<lparr>columns = fixed_columns,
            rows = [[StrVal ''10_STEAM'', NoneVal, NoneVal, IntVal 0,
                     FloatVal (1503 / 50), FloatVal (22547 / 25), FloatVal (22547 / 25),
                     FloatVal (3 / 50)],
                    [StrVal ''10_STEAM'', NoneVal, NoneVal, IntVal 1,
                     FloatVal 45, FloatVal 1350, FloatVal 1350,
                     FloatVal (747 / 50)]]\<rparr>]\<rparr>, example_block), Inr RetNone)
   \<and> call (Update_model [481 / 16]) (testing_model_object, example_block)
     = ((testing_model_object, example_block\<lparr>pre_P_T := 1503 / 50\<rparr>), Inr RetNone)"
proof -
  have 1: "call (Record_results NoneVal NoneVal []) (testing_model_object, example_block)
     = ((testing_model_object\<lparr>result_list := result_list testing_model_object @
          [\<lparr>columns = fixed_columns,
            rows = [[StrVal ''10_STEAM'', NoneVal, NoneVal, IntVal 0,
                     FloatVal (1503 / 50), FloatVal (22547 / 25), FloatVal (22547 / 25),
                     FloatVal (3 / 50)],
                    [StrVal ''10_STEAM'', NoneVal, NoneVal, IntVal 1,
                     FloatVal 45, FloatVal 1350, FloatVal 1350,
                     FloatVal (747 / 50)]]\<rparr>]\<rparr>, example_block), Inr RetNone)"
    by (simp add: record_results_eval)
  have 2: "call (Update_model [481 / 16]) (testing_model_object, example_block)
     = ((testing_model_object, example_block\<lparr>pre_P_T := 1503 / 50\<rparr>), Inr RetNone)"
    by (simp add: update_model_def update_power_def py_round_def Let_def)
  from record_results_only_mutator [OF 1] record_results_only_mutator [OF 2] 1 2 show ?thesis
    by blast
qed

subsection \<open>The forecaster\<close>

text \<open>
  C3 as stated fails: \<^verbatim>\<open>forecast_real_time_prices\<close> does not fill its scenarios with
  the forecaster's prediction. With the prediction 30 of the fixtures, one scenario over
  two hours is \<open>[0, 0]\<close>, not \<open>[30, 30]\<close>.
\<close>

theorem forecast_real_time_prices_not_prediction:
  "forecast_real_time_prices make_testing_forecaster NoneVal NoneVal ''bus5'' 2 1 = [(0, [0, 0])]
   \<and> forecast_real_time_prices make_testing_forecaster NoneVal NoneVal ''bus5'' 2 1
       \<noteq> [(0, [prediction make_testing_forecaster, prediction make_testing_forecaster])]"
  by (simp add: forecast_real_time_prices_def forecast_def
      make_testing_forecaster_def upto.simps numeral_eq_Suc)

text \<open>
  C3, amended. For every date, hour and bus, every horizon \<open>\<ge> 0\<close> and every
  \<open>n_samples \<ge> 0\<close>, each of the two forecast methods returns a mapping with exactly
  \<open>n_samples\<close> entries, keyed \<open>0 .. n_samples - 1\<close>, each entry a list of length
  \<open>horizon\<close>; the elements all equal the forecaster's prediction in
  \<^verbatim>\<open>forecast_day_ahead_prices\<close>, and all equal the constant 0 in
  \<^verbatim>\<open>forecast_real_time_prices\<close>.
\<close>

theorem forecast_scenarios_shape:
  assumes "0 \<le> horizon" and "0 \<le> n_samples"
  shows "map fst (forecast_day_ahead_prices self date hour bus horizon n_samples)
           = [0..n_samples - 1]
       \<and> int (length (forecast_day_ahead_prices self date hour bus horizon n_samples))
           = n_samples
       \<and> (\<forall>(i, xs) \<in> set (forecast_day_ahead_prices self date hour bus horizon n_samples).
             int (length xs) = horizon \<and> (\<forall>x \<in> set xs. x = prediction self))
       \<and> map fst (forecast_real_time_prices self date hour bus horizon n_samples)
           = [0..n_samples - 1]
       \<and> int (length (forecast_real_time_prices self date hour bus horizon n_samples))
           = n_samples
       \<and> (\<forall>(i, xs) \<in> set (forecast_real_time_prices self date hour bus horizon n_samples).
             int (length xs) = horizon \<and> (\<forall>x \<in> set xs. x = 0))"
  using assms
  by (auto simp: forecast_day_ahead_prices_def forecast_real_time_prices_def forecast_keys
      dest: forecast_entries) (simp_all add: forecast_def)

theorem forecast_scenarios_shape_witness:
  "forecast_day_ahead_prices make_testing_forecaster NoneVal NoneVal ''bus5'' 2 3
     = [(0, [30, 30]), (1, [30, 30]), (2, [30, 30])]
   \<and> forecast_real_time_prices make_testing_forecaster NoneVal NoneVal ''bus5'' 2 3
     = [(0, [0, 0]), (1, [0, 0]), (2, [0, 0])]
   \<and> map fst (forecast_day_ahead_prices make_testing_forecaster NoneVal NoneVal ''bus5'' 2 3)
     = [0, 1, 2]"
  using forecast_scenarios_shape [of 2 3 make_testing_forecaster NoneVal NoneVal "''bus5''"]
  by (simp add: forecast_day_ahead_prices_def forecast_real_time_prices_def forecast_def
      make_testing_forecaster_def upto.simps numeral_eq_Suc)

text \<open>
  C10. For every date, hour, bus, horizon and number of samples,
  \<^verbatim>\<open>forecast_real_time_prices\<close> returns scenarios filled entirely with the constant 0,
  the same whatever prediction the forecaster stores, and
  \<^verbatim>\<open>forecast_day_ahead_and_real_time_prices\<close> returns the pair of the day-ahead
  forecast and the real-time forecast, in that order.
\<close>

theorem forecast_real_time_prices_zero:
  "map snd (forecast_real_time_prices self date hour bus horizon n_samples)
     = replicate (nat n_samples) (replicate (nat horizon) 0)
   \<and> forecast_real_time_prices self date hour bus horizon n_samples
     = forecast_real_time_prices self' date hour bus horizon n_samples
   \<and> forecast_day_ahead_and_real_time_prices self date hour bus horizon n_samples
     = (forecast_day_ahead_prices self date hour bus horizon n_samples,
        forecast_real_time_prices self date hour bus horizon n_samples)"
  by (simp add: forecast_real_time_prices_def forecast_def
      forecast_day_ahead_and_real_time_prices_def comp_def map_replicate_const)

end
